theory Spec2Isabelle
  imports Main "HOL-Library.AList"
begin

section \<open>Values, documents, requests and responses\<close>

text \<open>
  The server (the revision in \<^verbatim>\<open>src/unnamed/part_001\<close>, the one the specification
  describes) receives JSON bodies and keeps documents in two MongoDB collections.
  A value is a JSON scalar, a date written by the server (\<^verbatim>\<open>new Date()\<close>) or an
  ObjectId of the store. Nested objects and arrays are left out: in a filter they
  would be read by MongoDB as operators or matched element-wise, which is not
  equality on the field. A document is an association list; \<open>map_of\<close> reads a
  property (\<open>None\<close> is JavaScript's \<^verbatim>\<open>undefined\<close>), \<open>AList.update\<close> assigns one
  (in place if it exists, at the end otherwise, as a JavaScript object does).
  The body of a request is the parsed JSON object (an array or a missing body has
  none of the properties the handlers read and behaves as the empty document); the
  time a handler reads with \<^verbatim>\<open>new Date()\<close> is its argument \<open>now\<close>.
\<close>

datatype json = JNull | JBool bool | JNum int | JStr string | JDate nat | JOid nat

type_synonym doc = "(string \<times> json) list"

text \<open>JavaScript truthiness of a property read, as used by \<^verbatim>\<open>!x\<close>.\<close>

fun truthy :: "json option \<Rightarrow> bool" where
  "truthy None = False"
| "truthy (Some JNull) = False"
| "truthy (Some (JBool b)) = b"
| "truthy (Some (JNum n)) = (n \<noteq> 0)"
| "truthy (Some (JStr s)) = (s \<noteq> [])"
| "truthy (Some (JDate t)) = True"
| "truthy (Some (JOid i)) = True"

record request =
  cookies :: "(string \<times> string) list"
  headers :: "(string \<times> string) list"
  body :: doc
  params_id :: string
  query :: "(string \<times> string) list"
  user :: "doc option"

datatype payload =
    Message string
  | Items "doc list"
  | Inserted json
  | Deleted nat
  | Upserted "json option"

record response =
  status :: nat
  payload :: payload
  cookie_token :: "doc option"

definition reply :: "nat \<Rightarrow> payload \<Rightarrow> response" where
  "reply st p = \<lparr>status = st, payload = p, cookie_token = None\<rparr>"

section \<open>The document store\<close>

text \<open>
  A collection is the list of its documents in insertion order, with the counter
  the driver draws fresh ObjectIds from. The operations are the ones the handlers
  call: an equality filter matches a document when every filter field equals the
  document's field (a \<^verbatim>\<open>null\<close> in the filter also matches a missing field);
  \<^verbatim>\<open>findOne\<close> and \<^verbatim>\<open>deleteOne\<close> act on the first match; \<^verbatim>\<open>insertOne\<close> keeps an
  \<^verbatim>\<open>_id\<close> the document brings and fails on a duplicate, and generates one otherwise
  (a generated ObjectId is taken to be new); \<^verbatim>\<open>updateOne\<close> with \<^verbatim>\<open>upsert\<close> applies
  \<^verbatim>\<open>$set\<close> to the first match, or inserts the filter's fields with \<^verbatim>\<open>$set\<close> and
  \<^verbatim>\<open>$setOnInsert\<close> applied, and refuses to change the \<^verbatim>\<open>_id\<close> of the match. The
  store is taken to be reachable: the only failures are the two it raises itself.
\<close>

record collection =
  docs :: "doc list"
  next_oid :: nat

record store =
  favoriteCollection :: collection
  usersCollection :: collection

datatype store_error = DuplicateKey | ImmutableField

definition field_matches :: "json \<Rightarrow> json option \<Rightarrow> bool" where
  "field_matches v fd = (case fd of None \<Rightarrow> v = JNull | Some w \<Rightarrow> w = v)"

definition matches :: "doc \<Rightarrow> doc \<Rightarrow> bool" where
  "matches q d = list_all (\<lambda>(k, v). field_matches v (map_of d k)) q"

definition findOne :: "doc \<Rightarrow> collection \<Rightarrow> doc option" where
  "findOne q c = List.find (matches q) (docs c)"

definition find_toArray :: "doc \<Rightarrow> collection \<Rightarrow> doc list" where
  "find_toArray q c = filter (matches q) (docs c)"

definition insertOne :: "doc \<Rightarrow> collection \<Rightarrow> store_error + (json \<times> collection)" where
  "insertOne d c =
     (if map_of d ''_id'' = None \<or> map_of d ''_id'' = Some JNull then
        let i = JOid (next_oid c)
        in Inr (i, c\<lparr>docs := docs c @ [AList.update ''_id'' i d],
                      next_oid := Suc (next_oid c)\<rparr>)
      else
        (case map_of d ''_id'' of
           None \<Rightarrow> Inl DuplicateKey
         | Some i \<Rightarrow>
             if findOne [(''_id'', i)] c \<noteq> None then Inl DuplicateKey
             else Inr (i, c\<lparr>docs := docs c @ [d]\<rparr>)))"

primrec delete_first :: "('a \<Rightarrow> bool) \<Rightarrow> 'a list \<Rightarrow> 'a list" where
  "delete_first P [] = []"
| "delete_first P (x # xs) = (if P x then xs else x # delete_first P xs)"

primrec update_first :: "('a \<Rightarrow> bool) \<Rightarrow> ('a \<Rightarrow> 'a) \<Rightarrow> 'a list \<Rightarrow> 'a list" where
  "update_first P f [] = []"
| "update_first P f (x # xs) = (if P x then f x # xs else x # update_first P f xs)"

definition deleteOne :: "doc \<Rightarrow> collection \<Rightarrow> nat \<times> collection" where
  "deleteOne q c =
     (let ds = delete_first (matches q) (docs c)
      in (length (docs c) - length ds, c\<lparr>docs := ds\<rparr>))"

definition updateOne_upsert ::
    "doc \<Rightarrow> doc \<Rightarrow> doc \<Rightarrow> collection \<Rightarrow> store_error + (json option \<times> collection)" where
  "updateOne_upsert flt set_fields set_on_insert c =
     (case findOne flt c of
        Some d \<Rightarrow>
          if (case map_of set_fields ''_id'' of
                None \<Rightarrow> False
              | Some i \<Rightarrow> map_of d ''_id'' \<noteq> Some i)
          then Inl ImmutableField
          else Inr (None,
                 c\<lparr>docs := update_first (matches flt)
                              (\<lambda>x. AList.merge x set_fields) (docs c)\<rparr>)
      | None \<Rightarrow>
          (case insertOne (AList.merge (AList.merge flt set_fields) set_on_insert) c of
             Inl e \<Rightarrow> Inl e
           | Inr (i, c') \<Rightarrow> Inr (Some i, c')))"

subsection \<open>ObjectId\<close>

text \<open>
  \<^verbatim>\<open>new ObjectId(id)\<close> on a string accepts 24 hexadecimal digits and throws on any
  other string; \<^verbatim>\<open>ObjectId.isValid(id)\<close> is whether the constructor accepts
  \<open>id\<close>. Two ObjectIds are equal when their twelve bytes are, so the model keeps
  the number the digits denote. (Older versions of the library also take any string
  of twelve characters, in the constructor and in \<^verbatim>\<open>isValid\<close> alike.)
\<close>

datatype bson_error = BSONError

definition hexval :: "char \<Rightarrow> nat option" where
  "hexval c =
     (let n = (of_char c :: nat)
      in if 48 \<le> n \<and> n \<le> 57 then Some (n - 48)
         else if 97 \<le> n \<and> n \<le> 102 then Some (n - 87)
         else if 65 \<le> n \<and> n \<le> 70 then Some (n - 55)
         else None)"

definition ObjectId_new :: "string \<Rightarrow> bson_error + nat" where
  "ObjectId_new s =
     (if length s = 24 \<and> list_all (\<lambda>c. hexval c \<noteq> None) s
      then Inr (foldl (\<lambda>n c. 16 * n + the (hexval c)) 0 s)
      else Inl BSONError)"

definition ObjectId_isValid :: "string \<Rightarrow> bool" where
  "ObjectId_isValid s = (case ObjectId_new s of Inr _ \<Rightarrow> True | Inl _ \<Rightarrow> False)"

section \<open>Session tokens\<close>

text \<open>
  \<^verbatim>\<open>jwt.verify(token, secret, callback)\<close> is the signature library with the
  process-wide secret: a parameter of the model, a function from the raw token to
  the decoded payload or to the reason it was refused.
\<close>

datatype jwt_error = TokenExpired | Malformed | InvalidSignature

type_synonym verifier = "string \<Rightarrow> jwt_error + doc"

text \<open>\<^verbatim>\<open>s.split(sep)\<close> for a one-character separator, and \<^verbatim>\<open>xs[i]\<close>.\<close>

fun split :: "char \<Rightarrow> string \<Rightarrow> string list" where
  "split sep [] = [[]]"
| "split sep (c # cs) =
     (if c = sep then [] # split sep cs
      else (case split sep cs of w # ws \<Rightarrow> (c # w) # ws | [] \<Rightarrow> [[c]]))"

definition nth_opt :: "'a list \<Rightarrow> nat \<Rightarrow> 'a option" where
  "nth_opt xs i = (if i < length xs then Some (xs ! i) else None)"

text \<open>
  \<^verbatim>\<open>a || b\<close> on values that are a string or missing: \<open>a\<close> when it is a non-empty
  string, \<open>b\<close> otherwise.
\<close>

definition js_or :: "string option \<Rightarrow> string option \<Rightarrow> string option" where
  "js_or a b = (case a of Some (c # cs) \<Rightarrow> a | _ \<Rightarrow> b)"

definition bearer_value :: "string option \<Rightarrow> string option" where
  "bearer_value h =
     (case h of
        None \<Rightarrow> None
      | Some a \<Rightarrow>
          if take 7 a = ''Bearer '' then nth_opt (split (CHR '' '') a) 1 else None)"

definition request_token :: "request \<Rightarrow> string option" where
  "request_token req =
     js_or (map_of (cookies req) ''token'')
           (bearer_value (map_of (headers req) ''authorization''))"

datatype guard = Reject response | Next request

definition verifyJWT :: "verifier \<Rightarrow> request \<Rightarrow> guard" where
  "verifyJWT verify req =
     (case request_token req of
        None \<Rightarrow> Reject (reply 401 (Message ''Unauthorized: No token provided''))
      | Some token \<Rightarrow>
          if token = [] then Reject (reply 401 (Message ''Unauthorized: No token provided''))
          else (case verify token of
                  Inl err \<Rightarrow> Reject (reply 403 (Message ''Forbidden: Invalid or expired token''))
                | Inr decoded \<Rightarrow> Next (req\<lparr>user := Some decoded\<rparr>)))"

section \<open>The handlers\<close>

text \<open>\<^verbatim>\<open>req.user?.email\<close>\<close>

definition user_email :: "request \<Rightarrow> json option" where
  "user_email req = (case user req of None \<Rightarrow> None | Some u \<Rightarrow> map_of u ''email'')"

text \<open>\<^verbatim>\<open>s.toLowerCase()\<close>, on the letters \<^verbatim>\<open>A\<close> to \<^verbatim>\<open>Z\<close>.\<close>

definition lower_char :: "char \<Rightarrow> char" where
  "lower_char c =
     (let n = (of_char c :: nat) in if 65 \<le> n \<and> n \<le> 90 then char_of (n + 32) else c)"

definition toLowerCase :: "string \<Rightarrow> string" where
  "toLowerCase s = map lower_char s"

text \<open>
  \<^verbatim>\<open>POST /users\<close>. A truthy \<^verbatim>\<open>email\<close> that is not a string has no
  \<^verbatim>\<open>toLowerCase\<close>: the call throws and the \<^verbatim>\<open>catch\<close> answers 500, as it does when
  the store refuses the write.
\<close>

definition post_users :: "nat \<Rightarrow> request \<Rightarrow> store \<Rightarrow> response \<times> store" where
  "post_users now req s =
     (let usr = body req in
      if \<not> truthy (map_of usr ''email'') then (reply 400 (Message ''Email is required''), s)
      else
        (case map_of usr ''email'' of
           Some (JStr e) \<Rightarrow>
             let email = toLowerCase e;
                 flt = [(''email'', JStr email)];
                 restUser = AList.delete ''createdAt'' usr;
                 set_fields = AList.update ''updatedAt'' (JDate now)
                                (AList.update ''email'' (JStr email) restUser);
                 set_on_insert = [(''createdAt'', JDate now)]
             in (case updateOne_upsert flt set_fields set_on_insert (usersCollection s) of
                   Inl err \<Rightarrow> (reply 500 (Message ''Server error creating/updating user''), s)
                 | Inr (upsertedId, us) \<Rightarrow>
                     (\<lparr>status = 200, payload = Upserted upsertedId,
                       cookie_token = Some [(''email'', JStr email)]\<rparr>,
                      s\<lparr>usersCollection := us\<rparr>))
         | _ \<Rightarrow> (reply 500 (Message ''Server error creating/updating user''), s)))"

text \<open>\<^verbatim>\<open>POST /wishlist\<close>, behind \<open>verifyJWT\<close>.\<close>

definition post_wishlist :: "nat \<Rightarrow> request \<Rightarrow> store \<Rightarrow> response \<times> store" where
  "post_wishlist now req s =
     (let item = body req in
      (case map_of item ''id'' of
         None \<Rightarrow> (reply 400 (Message ''Invalid wishlist data: missing id''), s)
       | Some item_id \<Rightarrow>
           if \<not> truthy (Some item_id)
           then (reply 400 (Message ''Invalid wishlist data: missing id''), s)
           else
             (case user_email req of
                None \<Rightarrow> (reply 403 (Message ''Forbidden: user email missing in token''), s)
              | Some userEmail \<Rightarrow>
                  if \<not> truthy (Some userEmail)
                  then (reply 403 (Message ''Forbidden: user email missing in token''), s)
                  else
                    let item = AList.update ''email'' userEmail item in
                    if findOne [(''id'', item_id), (''email'', userEmail)]
                         (favoriteCollection s) \<noteq> None
                    then (reply 409 (Message ''Item already added to wishlist''), s)
                    else
                      (case insertOne (AList.update ''createdAt'' (JDate now) item)
                              (favoriteCollection s) of
                         Inl err \<Rightarrow>
                           (reply 500 (Message ''Server error adding to wishlist''), s)
                       | Inr (insertedId, fav) \<Rightarrow>
                           (reply 201 (Inserted insertedId),
                            s\<lparr>favoriteCollection := fav\<rparr>)))))"

text \<open>\<^verbatim>\<open>POST /wishlist-recommend\<close>, behind \<open>verifyJWT\<close>.\<close>

definition post_wishlist_recommend :: "nat \<Rightarrow> request \<Rightarrow> store \<Rightarrow> response \<times> store" where
  "post_wishlist_recommend now req s =
     (let item = body req in
      (case map_of item ''hotelId'' of
         None \<Rightarrow> (reply 400 (Message ''Invalid data''), s)
       | Some hotelId \<Rightarrow>
           if \<not> truthy (Some hotelId) \<or> \<not> truthy (map_of item ''name'')
           then (reply 400 (Message ''Invalid data''), s)
           else
             (case user_email req of
                None \<Rightarrow> (reply 403 (Message ''Forbidden: user email missing in token''), s)
              | Some userEmail \<Rightarrow>
                  if \<not> truthy (Some userEmail)
                  then (reply 403 (Message ''Forbidden: user email missing in token''), s)
                  else
                    let item = AList.update ''email'' userEmail item in
                    if findOne [(''hotelId'', hotelId), (''email'', userEmail)]
                         (favoriteCollection s) \<noteq> None
                    then (reply 200 (Message ''Already in wishlist''), s)
                    else
                      (case insertOne (AList.update ''createdAt'' (JDate now) item)
                              (favoriteCollection s) of
                         Inl err \<Rightarrow> (reply 500 (Message ''Server error''), s)
                       | Inr (insertedId, fav) \<Rightarrow>
                           (reply 201 (Inserted insertedId),
                            s\<lparr>favoriteCollection := fav\<rparr>)))))"

text \<open>\<^verbatim>\<open>GET /wishlist\<close>, behind \<open>verifyJWT\<close>.\<close>

definition get_wishlist :: "request \<Rightarrow> store \<Rightarrow> response \<times> store" where
  "get_wishlist req s =
     (case user_email req of
        None \<Rightarrow> (reply 403 (Message ''Forbidden: user email missing in token''), s)
      | Some userEmail \<Rightarrow>
          if \<not> truthy (Some userEmail)
          then (reply 403 (Message ''Forbidden: user email missing in token''), s)
          else (reply 200 (Items (find_toArray [(''email'', userEmail)]
                                    (favoriteCollection s))), s))"

text \<open>
  \<^verbatim>\<open>DELETE /wishlist/:id\<close>, behind \<open>verifyJWT\<close>. The constructor call sits inside
  the handler's \<^verbatim>\<open>try\<close>: were it to throw, the \<^verbatim>\<open>catch\<close> would answer 500.
\<close>

definition delete_wishlist :: "request \<Rightarrow> store \<Rightarrow> response \<times> store" where
  "delete_wishlist req s =
     (let id = params_id req in
      if \<not> ObjectId_isValid id then (reply 400 (Message ''Invalid id''), s)
      else
        (case user_email req of
           None \<Rightarrow> (reply 403 (Message ''Forbidden: user email missing in token''), s)
         | Some userEmail \<Rightarrow>
             if \<not> truthy (Some userEmail)
             then (reply 403 (Message ''Forbidden: user email missing in token''), s)
             else
               (case ObjectId_new id of
                  Inl err \<Rightarrow>
                    (reply 500 (Message ''Server error deleting wishlist item''), s)
                | Inr oid \<Rightarrow>
                    (case deleteOne [(''_id'', JOid oid), (''email'', userEmail)]
                            (favoriteCollection s) of
                       (deletedCount, fav) \<Rightarrow>
                         if deletedCount = 0
                         then (reply 404 (Message ''Not found or not authorized to delete''),
                               s\<lparr>favoriteCollection := fav\<rparr>)
                         else (reply 200 (Deleted deletedCount),
                               s\<lparr>favoriteCollection := fav\<rparr>)))))"

subsection \<open>Routes\<close>

datatype route =
    POST_users
  | POST_wishlist
  | POST_wishlist_recommend
  | GET_wishlist
  | DELETE_wishlist

fun handler_of :: "nat \<Rightarrow> route \<Rightarrow> request \<Rightarrow> store \<Rightarrow> response \<times> store" where
  "handler_of now POST_users = post_users now"
| "handler_of now POST_wishlist = post_wishlist now"
| "handler_of now POST_wishlist_recommend = post_wishlist_recommend now"
| "handler_of now GET_wishlist = get_wishlist"
| "handler_of now DELETE_wishlist = delete_wishlist"

text \<open>Which routes are registered with \<open>verifyJWT\<close> before their handler.\<close>

fun uses_verifyJWT :: "route \<Rightarrow> bool" where
  "uses_verifyJWT POST_users = False"
| "uses_verifyJWT POST_wishlist = True"
| "uses_verifyJWT POST_wishlist_recommend = True"
| "uses_verifyJWT GET_wishlist = True"
| "uses_verifyJWT DELETE_wishlist = True"

text \<open>Such a route runs its handler only when the guard calls \<^verbatim>\<open>next()\<close>.\<close>

definition handle :: "verifier \<Rightarrow> nat \<Rightarrow> route \<Rightarrow> request \<Rightarrow> store \<Rightarrow> response \<times> store" where
  "handle verify now r req s =
     (if uses_verifyJWT r then
        (case verifyJWT verify req of
           Reject resp \<Rightarrow> (resp, s)
         | Next req' \<Rightarrow> handler_of now r req' s)
      else handler_of now r req s)"

section \<open>The earlier revision\<close>

text \<open>
  \<^verbatim>\<open>src/index.js\<close> keeps an earlier revision of the same server (and, behind it and
  in \<^verbatim>\<open>src/unnamed/part_000\<close>, two still earlier ones without sessions). Its guard
  reads the cookie only, its handlers take the owner from the request body, list and
  delete without an owner filter, and \<^verbatim>\<open>POST /users\<close> inserts once and never
  updates. The handlers below are that revision's, for comparison; where a handler
  has no \<^verbatim>\<open>try\<close>, an exception leaves it without a response (\<open>Inl\<close>).
\<close>

definition rev_verifyJWT :: "verifier \<Rightarrow> request \<Rightarrow> guard" where
  "rev_verifyJWT verify req =
     (case map_of (cookies req) ''token'' of
        None \<Rightarrow> Reject (reply 401 (Message ''Unauthorized: No token provided''))
      | Some token \<Rightarrow>
          if token = [] then Reject (reply 401 (Message ''Unauthorized: No token provided''))
          else (case verify token of
                  Inl err \<Rightarrow> Reject (reply 403 (Message ''Forbidden: Invalid token''))
                | Inr decoded \<Rightarrow> Next (req\<lparr>user := Some decoded\<rparr>)))"

text \<open>An \<^verbatim>\<open>undefined\<close> property in a filter is sent to the store as \<^verbatim>\<open>null\<close>.\<close>

definition filter_value :: "json option \<Rightarrow> json" where
  "filter_value fd = (case fd of None \<Rightarrow> JNull | Some v \<Rightarrow> v)"

definition rev_post_users :: "request \<Rightarrow> store \<Rightarrow> store_error + response \<times> store" where
  "rev_post_users req s =
     (let usr = body req in
      if findOne [(''email'', filter_value (map_of usr ''email''))] (usersCollection s) \<noteq> None
      then Inr (reply 200 (Message ''User already exists''), s)
      else
        (case insertOne usr (usersCollection s) of
           Inl err \<Rightarrow> Inl err
         | Inr (insertedId, us) \<Rightarrow>
             Inr (\<lparr>status = 200, payload = Inserted insertedId,
                   cookie_token =
                     Some (case map_of usr ''email'' of
                             None \<Rightarrow> []
                           | Some e \<Rightarrow> [(''email'', e)])\<rparr>,
                  s\<lparr>usersCollection := us\<rparr>)))"

definition rev_post_wishlist :: "request \<Rightarrow> store \<Rightarrow> response \<times> store" where
  "rev_post_wishlist req s =
     (let favoriteItem = body req in
      if \<not> truthy (map_of favoriteItem ''id'') \<or> \<not> truthy (map_of favoriteItem ''email'')
      then (reply 400 (Message ''Invalid wishlist data''), s)
      else if findOne [(''id'', filter_value (map_of favoriteItem ''id'')),
                       (''email'', filter_value (map_of favoriteItem ''email''))]
                (favoriteCollection s) \<noteq> None
      then (reply 400 (Message ''Item already added to wishlist''), s)
      else
        (case insertOne favoriteItem (favoriteCollection s) of
           Inl err \<Rightarrow> (reply 500 (Message ''Server error''), s)
         | Inr (insertedId, fav) \<Rightarrow>
             (reply 200 (Inserted insertedId), s\<lparr>favoriteCollection := fav\<rparr>)))"

definition rev_get_wishlist :: "request \<Rightarrow> store \<Rightarrow> response \<times> store" where
  "rev_get_wishlist req s = (reply 200 (Items (find_toArray [] (favoriteCollection s))), s)"

definition rev_delete_wishlist :: "request \<Rightarrow> store \<Rightarrow> bson_error + response \<times> store" where
  "rev_delete_wishlist req s =
     (case ObjectId_new (params_id req) of
        Inl err \<Rightarrow> Inl err
      | Inr oid \<Rightarrow>
          (case deleteOne [(''_id'', JOid oid)] (favoriteCollection s) of
             (deletedCount, fav) \<Rightarrow>
               Inr (reply 200 (Deleted deletedCount), s\<lparr>favoriteCollection := fav\<rparr>)))"

section \<open>Stored items by key\<close>

text \<open>
  An item with key \<open>(ownr, v)\<close> is an item that the add handlers' lookup
  \<^verbatim>\<open>findOne({k: v, email: ownr})\<close> matches, \<open>k\<close> being \<^verbatim>\<open>id\<close> or \<^verbatim>\<open>hotelId\<close>: for
  values the handlers accept, an item whose field \<open>k\<close> is \<open>v\<close> and whose \<^verbatim>\<open>email\<close> is
  \<open>ownr\<close>.
\<close>

definition has_key :: "string \<Rightarrow> json \<Rightarrow> json \<Rightarrow> doc \<Rightarrow> bool" where
  "has_key k ownr v d = matches [(k, v), (''email'', ownr)] d"

section \<open>Properties\<close>

lemma split_first:
  "\<exists>ws. split sep t = takeWhile (\<lambda>c. c \<noteq> sep) t # ws"
  by (induction t) auto

lemma bearer_value_Bearer:
  "bearer_value (Some (''Bearer '' @ t)) = Some (takeWhile (\<lambda>c. c \<noteq> CHR '' '') t)"
proof -
  obtain ws where "split (CHR '' '') t = takeWhile (\<lambda>c. c \<noteq> CHR '' '') t # ws"
    using split_first by blast
  then show ?thesis
    by (simp add: bearer_value_def nth_opt_def)
qed

lemma matches_Nil [simp]: "matches [] d"
  by (simp add: matches_def)

lemma matches_Cons [simp]:
  "matches ((k, v) # q) d = (field_matches v (map_of d k) \<and> matches q d)"
  by (simp add: matches_def)

lemma field_matches_truthy [simp]:
  "truthy (Some v) \<Longrightarrow> field_matches v fd = (fd = Some v)"
  by (cases fd; cases v) (auto simp: field_matches_def)

lemma field_matches_JOid [simp]: "field_matches (JOid i) fd = (fd = Some (JOid i))"
  by (cases fd) (auto simp: field_matches_def)

lemma delete_first_no_match: "\<forall>x\<in>set xs. \<not> P x \<Longrightarrow> delete_first P xs = xs"
  by (induction xs) auto

lemma delete_first_cases:
  "(delete_first P xs = xs \<and> (\<forall>x\<in>set xs. \<not> P x)) \<or>
   (\<exists>ys d zs. xs = ys @ d # zs \<and> P d \<and> (\<forall>y\<in>set ys. \<not> P y) \<and> delete_first P xs = ys @ zs)"
proof (induction xs)
  case Nil
  then show ?case by simp
next
  case (Cons x xs)
  show ?case
  proof (cases "P x")
    case True
    then have "x # xs = [] @ x # xs \<and> P x \<and> (\<forall>y\<in>set []. \<not> P y) \<and> delete_first P (x # xs) = [] @ xs"
      by simp
    then show ?thesis by blast
  next
    case False
    from Cons.IH show ?thesis
    proof
      assume "delete_first P xs = xs \<and> (\<forall>x\<in>set xs. \<not> P x)"
      with False show ?thesis by simp
    next
      assume "\<exists>ys d zs. xs = ys @ d # zs \<and> P d \<and> (\<forall>y\<in>set ys. \<not> P y) \<and> delete_first P xs = ys @ zs"
      then obtain ys d zs where h: "xs = ys @ d # zs" "P d" "\<forall>y\<in>set ys. \<not> P y" "delete_first P xs = ys @ zs"
        by blast
      with False have "x # xs = (x # ys) @ d # zs \<and> P d \<and> (\<forall>y\<in>set (x # ys). \<not> P y) \<and> delete_first P (x # xs) = (x # ys) @ zs"
        by simp
      then show ?thesis by blast
    qed
  qed
qed

lemma ObjectId_isValid_iff:
  "ObjectId_isValid s = (length s = 24 \<and> list_all (\<lambda>c. hexval c \<noteq> None) s)"
  by (simp add: ObjectId_isValid_def ObjectId_new_def)

lemma ObjectId_isValid_new: "ObjectId_isValid s \<Longrightarrow> \<exists>oid. ObjectId_new s = Inr oid"
  by (simp add: ObjectId_isValid_def split: sum.splits)

lemma request_token_cookie:
  "map_of (cookies req) ''token'' = Some c \<Longrightarrow> c \<noteq> [] \<Longrightarrow> request_token req = Some c"
  by (cases c) (simp_all add: request_token_def js_or_def)

lemma request_token_no_cookie:
  "map_of (cookies req) ''token'' = None \<or> map_of (cookies req) ''token'' = Some [] \<Longrightarrow>
   request_token req = bearer_value (map_of (headers req) ''authorization'')"
  by (auto simp: request_token_def js_or_def)

lemma bearer_value_other: "take 7 a \<noteq> ''Bearer '' \<Longrightarrow> bearer_value (Some a) = None"
  by (simp add: bearer_value_def)

text \<open>
  Claim C8, as amended. The token is the \<^verbatim>\<open>token\<close> cookie when that cookie is
  present and not empty. When it is absent or empty, the token is read from the
  authorization header: the text after \<^verbatim>\<open>Bearer \<close> up to the next space, and
  nothing when the header is missing or does not start with \<^verbatim>\<open>Bearer \<close>. Nothing
  else in the request is read.
\<close>

theorem request_token_cookie_then_bearer:
  "(\<forall>c. map_of (cookies req) ''token'' = Some c \<and> c \<noteq> [] \<longrightarrow> request_token req = Some c) \<and>
   ((map_of (cookies req) ''token'' = None \<or> map_of (cookies req) ''token'' = Some []) \<longrightarrow>
      request_token req = bearer_value (map_of (headers req) ''authorization'')) \<and>
   (\<forall>t. bearer_value (Some (''Bearer '' @ t)) =
          Some (takeWhile (\<lambda>c. c \<noteq> CHR '' '') t)) \<and>
   (\<forall>a. take 7 a \<noteq> ''Bearer '' \<longrightarrow> bearer_value (Some a) = None) \<and>
   bearer_value None = None \<and>
   (\<forall>req'. map_of (cookies req') ''token'' = map_of (cookies req) ''token'' \<and>
           map_of (headers req') ''authorization'' = map_of (headers req) ''authorization'' \<longrightarrow>
           request_token req' = request_token req)"
proof (intro conjI allI impI)
  fix c assume "map_of (cookies req) ''token'' = Some c \<and> c \<noteq> []"
  then show "request_token req = Some c" by (simp add: request_token_cookie)
next
  assume "map_of (cookies req) ''token'' = None \<or> map_of (cookies req) ''token'' = Some []"
  then show "request_token req = bearer_value (map_of (headers req) ''authorization'')"
    by (rule request_token_no_cookie)
next
  fix t :: string
  show "bearer_value (Some (''Bearer '' @ t)) = Some (takeWhile (\<lambda>c. c \<noteq> CHR '' '') t)"
    by (rule bearer_value_Bearer)
next
  fix a :: string assume "take 7 a \<noteq> ''Bearer ''"
  then show "bearer_value (Some a) = None" by (rule bearer_value_other)
next
  show "bearer_value None = None" by (simp add: bearer_value_def)
next
  fix req' :: request
  assume "map_of (cookies req') ''token'' = map_of (cookies req) ''token'' \<and>
           map_of (headers req') ''authorization'' = map_of (headers req) ''authorization''"
  then show "request_token req' = request_token req" by (simp add: request_token_def)
qed

theorem request_token_cookie_then_bearer_witness:
  "request_token
     \<lparr>cookies = [(''token'', ''tok'')], headers = [(''authorization'', ''Bearer abc'')],
      body = [], params_id = [], query = [], user = None\<rparr> = Some ''tok'' \<and>
   request_token
     \<lparr>cookies = [], headers = [(''authorization'', ''Bearer abc'')],
      body = [], params_id = [], query = [], user = None\<rparr> =
     bearer_value (map_of (headers
       \<lparr>cookies = [], headers = [(''authorization'', ''Bearer abc'')],
        body = [], params_id = [], query = [], user = None\<rparr>) ''authorization'') \<and>
   bearer_value (Some ''Bearer abc def'') = Some ''abc''"
proof -
  let ?r = "\<lparr>cookies = [(''token'', ''tok'')], headers = [(''authorization'', ''Bearer abc'')],
      body = [], params_id = [], query = [], user = None\<rparr>"
  let ?r' = "\<lparr>cookies = [], headers = [(''authorization'', ''Bearer abc'')],
      body = [], params_id = [], query = [], user = None\<rparr>"
  have h: "map_of (cookies ?r) ''token'' = Some ''tok'' \<and> ''tok'' \<noteq> []" by simp
  have h': "map_of (cookies ?r') ''token'' = None \<or> map_of (cookies ?r') ''token'' = Some []"
    by simp
  note a = request_token_cookie_then_bearer [of ?r]
  note b = request_token_cookie_then_bearer [of ?r']
  have "request_token ?r = Some ''tok''"
    by (rule mp [OF spec [OF conjunct1 [OF a]] h])
  moreover have "request_token ?r' = bearer_value (map_of (headers ?r') ''authorization'')"
    by (rule mp [OF conjunct1 [OF conjunct2 [OF b]] h'])
  moreover have "bearer_value (Some ''Bearer abc def'') = Some ''abc''"
    using spec [OF conjunct1 [OF conjunct2 [OF conjunct2 [OF b]]], of "''abc def''"]
    by simp
  ultimately show ?thesis by (intro conjI)
qed

text \<open>
  The claim as written fails for a cookie that is present but empty: the header is
  read although the cookie is there.
\<close>

theorem request_token_empty_cookie_counterexample:
  "map_of (cookies \<lparr>cookies = [(''token'', [])], headers = [(''authorization'', ''Bearer abc'')],
           body = [], params_id = [], query = [], user = None\<rparr>) ''token'' = Some [] \<and>
   request_token \<lparr>cookies = [(''token'', [])], headers = [(''authorization'', ''Bearer abc'')],
           body = [], params_id = [], query = [], user = None\<rparr> = Some ''abc''"
  by code_simp

lemma user_email_user [simp]: "user_email (req\<lparr>user := Some d\<rparr>) = map_of d ''email''"
  by (simp add: user_email_def)

text \<open>
  Claim C6. On every route registered with the guard: a request without a token is
  answered 401 and the store is untouched; a request whose token the verifier
  refuses, for whatever reason, is answered with one and the same 403 and the store
  is untouched; a request whose token verifies reaches the handler with the decoded
  payload as \<^verbatim>\<open>req.user\<close>, so that the e-mail the handler reads is the verified one.
\<close>

theorem verifyJWT_admission:
  assumes "uses_verifyJWT r"
  shows "((request_token req = None \<or> request_token req = Some []) \<longrightarrow>
            handle verify now r req s = (reply 401 (Message ''Unauthorized: No token provided''), s)) \<and>
         (\<forall>t e. request_token req = Some t \<and> t \<noteq> [] \<and> verify t = Inl e \<longrightarrow>
            handle verify now r req s =
              (reply 403 (Message ''Forbidden: Invalid or expired token''), s)) \<and>
         (\<forall>t d. request_token req = Some t \<and> t \<noteq> [] \<and> verify t = Inr d \<longrightarrow>
            handle verify now r req s = handler_of now r (req\<lparr>user := Some d\<rparr>) s \<and>
            user_email (req\<lparr>user := Some d\<rparr>) = map_of d ''email'')"
  using assms by (auto simp: handle_def verifyJWT_def)

theorem verifyJWT_admission_witness:
  "handle (\<lambda>t. if t = ''good'' then Inr [(''email'', JStr ''a@x.com'')] else Inl TokenExpired) 5
     GET_wishlist
     \<lparr>cookies = [], headers = [], body = [], params_id = [], query = [], user = None\<rparr>
     \<lparr>favoriteCollection = \<lparr>docs = [], next_oid = 0\<rparr>,
      usersCollection = \<lparr>docs = [], next_oid = 0\<rparr>\<rparr> =
     (reply 401 (Message ''Unauthorized: No token provided''),
      \<lparr>favoriteCollection = \<lparr>docs = [], next_oid = 0\<rparr>,
       usersCollection = \<lparr>docs = [], next_oid = 0\<rparr>\<rparr>) \<and>
   handle (\<lambda>t. if t = ''good'' then Inr [(''email'', JStr ''a@x.com'')] else Inl TokenExpired) 5
     GET_wishlist
     \<lparr>cookies = [(''token'', ''stale'')], headers = [], body = [], params_id = [], query = [],
      user = None\<rparr>
     \<lparr>favoriteCollection = \<lparr>docs = [], next_oid = 0\<rparr>,
      usersCollection = \<lparr>docs = [], next_oid = 0\<rparr>\<rparr> =
     (reply 403 (Message ''Forbidden: Invalid or expired token''),
      \<lparr>favoriteCollection = \<lparr>docs = [], next_oid = 0\<rparr>,
       usersCollection = \<lparr>docs = [], next_oid = 0\<rparr>\<rparr>) \<and>
   user_email
     (\<lparr>cookies = [(''token'', ''good'')], headers = [], body = [], params_id = [], query = [],
       user = None\<rparr>\<lparr>user := Some [(''email'', JStr ''a@x.com'')]\<rparr>) =
     map_of [(''email'', JStr ''a@x.com'')] ''email''"
proof -
  let ?v = "\<lambda>t. if t = ''good'' then Inr [(''email'', JStr ''a@x.com'')] else Inl TokenExpired"
  let ?s = "\<lparr>favoriteCollection = \<lparr>docs = [], next_oid = 0\<rparr>,
      usersCollection = \<lparr>docs = [], next_oid = 0\<rparr>\<rparr>"
  let ?r0 = "\<lparr>cookies = [], headers = [], body = [], params_id = [], query = [], user = None\<rparr>"
  let ?r1 = "\<lparr>cookies = [(''token'', ''stale'')], headers = [], body = [], params_id = [],
      query = [], user = None\<rparr>"
  let ?r2 = "\<lparr>cookies = [(''token'', ''good'')], headers = [], body = [], params_id = [],
      query = [], user = None\<rparr>"
  have p: "uses_verifyJWT GET_wishlist" by simp
  have h0: "request_token ?r0 = None \<or> request_token ?r0 = Some []" by code_simp
  have h1: "request_token ?r1 = Some ''stale'' \<and> ''stale'' \<noteq> [] \<and> ?v ''stale'' = Inl TokenExpired"
    by code_simp
  have h2: "request_token ?r2 = Some ''good'' \<and> ''good'' \<noteq> [] \<and>
            ?v ''good'' = Inr [(''email'', JStr ''a@x.com'')]"
    by code_simp
  note a = verifyJWT_admission [OF p, where req = ?r0 and verify = ?v and now = 5 and s = ?s]
  note b = verifyJWT_admission [OF p, where req = ?r1 and verify = ?v and now = 5 and s = ?s]
  note c = verifyJWT_admission [OF p, where req = ?r2 and verify = ?v and now = 5 and s = ?s]
  have "handle ?v 5 GET_wishlist ?r0 ?s = (reply 401 (Message ''Unauthorized: No token provided''), ?s)"
    by (rule mp [OF conjunct1 [OF a] h0])
  moreover have "handle ?v 5 GET_wishlist ?r1 ?s =
       (reply 403 (Message ''Forbidden: Invalid or expired token''), ?s)"
    by (rule mp [OF spec [OF spec [OF conjunct1 [OF conjunct2 [OF b]]]] h1])
  moreover have "user_email (?r2\<lparr>user := Some [(''email'', JStr ''a@x.com'')]\<rparr>) =
     map_of [(''email'', JStr ''a@x.com'')] ''email''"
    by (rule conjunct2 [OF mp [OF spec [OF spec [OF conjunct2 [OF conjunct2 [OF c]]]] h2]])
  ultimately show ?thesis by (intro conjI)
qed

lemma matches_email:
  "truthy (Some v) \<Longrightarrow> matches [(''email'', v)] = (\<lambda>d. map_of d ''email'' = Some v)"
  by (rule ext) simp

text \<open>
  Claim C1. \<^verbatim>\<open>GET /wishlist\<close> for a caller whose verified token carries the e-mail
  \<open>O\<close> answers 200 with exactly the stored items whose \<^verbatim>\<open>email\<close> is \<open>O\<close>, in the order
  of the collection (insertion order), and leaves the store as it was; no item of
  another owner is returned, however many there are. A token without a usable e-mail
  is answered 403 with no item. The query parameters of the request play no part.
\<close>

theorem get_wishlist_owner_scoped:
  "get_wishlist req s =
     (if truthy (user_email req)
      then (reply 200 (Items (filter (\<lambda>d. map_of d ''email'' = user_email req)
                                (docs (favoriteCollection s)))), s)
      else (reply 403 (Message ''Forbidden: user email missing in token''), s)) \<and>
   get_wishlist (req\<lparr>query := q\<rparr>) s = get_wishlist req s"
proof
  show "get_wishlist req s =
     (if truthy (user_email req)
      then (reply 200 (Items (filter (\<lambda>d. map_of d ''email'' = user_email req)
                                (docs (favoriteCollection s)))), s)
      else (reply 403 (Message ''Forbidden: user email missing in token''), s))"
  proof (cases "user_email req")
    case None
    then show ?thesis by (simp add: get_wishlist_def)
  next
    case (Some v)
    then show ?thesis
      by (cases "truthy (Some v)") (simp_all add: get_wishlist_def find_toArray_def matches_email)
  qed
  show "get_wishlist (req\<lparr>query := q\<rparr>) s = get_wishlist req s"
    by (simp add: get_wishlist_def user_email_def)
qed

theorem get_wishlist_owner_scoped_witness:
  "get_wishlist
     \<lparr>cookies = [], headers = [], body = [], params_id = [],
      query = [(''email'', ''b@x.com'')], user = Some [(''email'', JStr ''a@x.com'')]\<rparr>
     \<lparr>favoriteCollection =
        \<lparr>docs = [[(''_id'', JOid 0), (''id'', JNum 7), (''email'', JStr ''a@x.com'')],
                 [(''_id'', JOid 1), (''id'', JNum 7), (''email'', JStr ''b@x.com'')],
                 [(''_id'', JOid 2), (''hotelId'', JNum 3), (''email'', JStr ''a@x.com'')]],
         next_oid = 3\<rparr>,
      usersCollection = \<lparr>docs = [], next_oid = 0\<rparr>\<rparr> =
   (reply 200 (Items [[(''_id'', JOid 0), (''id'', JNum 7), (''email'', JStr ''a@x.com'')],
                      [(''_id'', JOid 2), (''hotelId'', JNum 3), (''email'', JStr ''a@x.com'')]]),
    \<lparr>favoriteCollection =
        \<lparr>docs = [[(''_id'', JOid 0), (''id'', JNum 7), (''email'', JStr ''a@x.com'')],
                 [(''_id'', JOid 1), (''id'', JNum 7), (''email'', JStr ''b@x.com'')],
                 [(''_id'', JOid 2), (''hotelId'', JNum 3), (''email'', JStr ''a@x.com'')]],
         next_oid = 3\<rparr>,
      usersCollection = \<lparr>docs = [], next_oid = 0\<rparr>\<rparr>)"
  using get_wishlist_owner_scoped
    [of "\<lparr>cookies = [], headers = [], body = [], params_id = [],
      query = [(''email'', ''b@x.com'')], user = Some [(''email'', JStr ''a@x.com'')]\<rparr>"
     "\<lparr>favoriteCollection =
        \<lparr>docs = [[(''_id'', JOid 0), (''id'', JNum 7), (''email'', JStr ''a@x.com'')],
                 [(''_id'', JOid 1), (''id'', JNum 7), (''email'', JStr ''b@x.com'')],
                 [(''_id'', JOid 2), (''hotelId'', JNum 3), (''email'', JStr ''a@x.com'')]],
         next_oid = 3\<rparr>,
      usersCollection = \<lparr>docs = [], next_oid = 0\<rparr>\<rparr>" "[]"]
  by (simp add: user_email_def)

lemma deleteOne_no_match:
  "\<forall>d\<in>set (docs c). \<not> matches q d \<Longrightarrow> deleteOne q c = (0, c)"
  by (simp add: deleteOne_def delete_first_no_match)

text \<open>
  Claim C2. For a caller \<open>O\<close> and a well-formed identifier, \<^verbatim>\<open>DELETE /wishlist/:id\<close>
  on a store where no item has that identifier, and on a store where the items with
  that identifier belong to others, gives the same answer, 404 with the same message,
  and leaves either store unchanged: the two cases cannot be told apart.
\<close>

theorem delete_wishlist_not_found_or_forbidden:
  assumes "ObjectId_new (params_id req) = Inr oid"
    and "user_email req = Some ownr" and "truthy (Some ownr)"
    and missing: "\<forall>d\<in>set (docs (favoriteCollection s1)). map_of d ''_id'' \<noteq> Some (JOid oid)"
    and foreign: "\<forall>d\<in>set (docs (favoriteCollection s2)).
                    map_of d ''_id'' = Some (JOid oid) \<longrightarrow> map_of d ''email'' \<noteq> Some ownr"
  shows "delete_wishlist req s1 = (reply 404 (Message ''Not found or not authorized to delete''), s1) \<and>
         delete_wishlist req s2 = (reply 404 (Message ''Not found or not authorized to delete''), s2)"
proof -
  let ?q = "[(''_id'', JOid oid), (''email'', ownr)]"
  have v: "ObjectId_isValid (params_id req)"
    using assms(1) by (simp add: ObjectId_isValid_def)
  have "\<forall>d\<in>set (docs (favoriteCollection s1)). \<not> matches ?q d"
    using missing assms(3) by simp
  then have d1: "deleteOne ?q (favoriteCollection s1) = (0, favoriteCollection s1)"
    by (rule deleteOne_no_match)
  have "\<forall>d\<in>set (docs (favoriteCollection s2)). \<not> matches ?q d"
    using foreign assms(3) by simp
  then have d2: "deleteOne ?q (favoriteCollection s2) = (0, favoriteCollection s2)"
    by (rule deleteOne_no_match)
  show ?thesis
    using v assms(1,2,3) d1 d2 by (simp add: delete_wishlist_def)
qed

theorem delete_wishlist_not_found_or_forbidden_witness:
  "delete_wishlist
     \<lparr>cookies = [], headers = [], body = [], params_id = ''00000000000000000000000A'',
      query = [], user = Some [(''email'', JStr ''a@x.com'')]\<rparr>
     \<lparr>favoriteCollection = \<lparr>docs = [], next_oid = 0\<rparr>,
      usersCollection = \<lparr>docs = [], next_oid = 0\<rparr>\<rparr> =
   (reply 404 (Message ''Not found or not authorized to delete''),
    \<lparr>favoriteCollection = \<lparr>docs = [], next_oid = 0\<rparr>,
      usersCollection = \<lparr>docs = [], next_oid = 0\<rparr>\<rparr>) \<and>
   delete_wishlist
     \<lparr>cookies = [], headers = [], body = [], params_id = ''00000000000000000000000A'',
      query = [], user = Some [(''email'', JStr ''a@x.com'')]\<rparr>
     \<lparr>favoriteCollection =
        \<lparr>docs = [[(''_id'', JOid 10), (''id'', JNum 7), (''email'', JStr ''b@x.com'')]],
         next_oid = 11\<rparr>,
      usersCollection = \<lparr>docs = [], next_oid = 0\<rparr>\<rparr> =
   (reply 404 (Message ''Not found or not authorized to delete''),
    \<lparr>favoriteCollection =
        \<lparr>docs = [[(''_id'', JOid 10), (''id'', JNum 7), (''email'', JStr ''b@x.com'')]],
         next_oid = 11\<rparr>,
      usersCollection = \<lparr>docs = [], next_oid = 0\<rparr>\<rparr>)"
proof -
  let ?req = "\<lparr>cookies = [], headers = [], body = [], params_id = ''00000000000000000000000A'',
      query = [], user = Some [(''email'', JStr ''a@x.com'')]\<rparr>"
  let ?s1 = "\<lparr>favoriteCollection = \<lparr>docs = [], next_oid = 0\<rparr>,
      usersCollection = \<lparr>docs = [], next_oid = 0\<rparr>\<rparr>"
  let ?s2 = "\<lparr>favoriteCollection =
        \<lparr>docs = [[(''_id'', JOid 10), (''id'', JNum 7), (''email'', JStr ''b@x.com'')]],
         next_oid = 11\<rparr>,
      usersCollection = \<lparr>docs = [], next_oid = 0\<rparr>\<rparr>"
  have h1: "ObjectId_new (params_id ?req) = Inr 10" by code_simp
  have h2: "user_email ?req = Some (JStr ''a@x.com'')" by (simp add: user_email_def)
  have h3: "truthy (Some (JStr ''a@x.com''))" by simp
  have h4: "\<forall>d\<in>set (docs (favoriteCollection ?s1)). map_of d ''_id'' \<noteq> Some (JOid 10)"
    by simp
  have h5: "\<forall>d\<in>set (docs (favoriteCollection ?s2)).
               map_of d ''_id'' = Some (JOid 10) \<longrightarrow> map_of d ''email'' \<noteq> Some (JStr ''a@x.com'')"
    by simp
  show ?thesis
    by (rule delete_wishlist_not_found_or_forbidden [OF h1 h2 h3 h4 h5])
qed

text \<open>
  Claim C7. When the path parameter is not a valid ObjectId string,
  \<^verbatim>\<open>DELETE /wishlist/:id\<close> answers 400 and leaves the store unchanged, for every
  caller the guard admits; past the check the constructor succeeds, so the handler
  never answers 500.
\<close>

theorem delete_wishlist_invalid_id:
  "(\<not> ObjectId_isValid (params_id req) \<longrightarrow>
      delete_wishlist req s = (reply 400 (Message ''Invalid id''), s)) \<and>
   (\<forall>req'. verifyJWT verify req = Next req' \<and> \<not> ObjectId_isValid (params_id req) \<longrightarrow>
      handle verify now DELETE_wishlist req s = (reply 400 (Message ''Invalid id''), s)) \<and>
   (ObjectId_isValid (params_id req) \<longrightarrow> (\<exists>oid. ObjectId_new (params_id req) = Inr oid)) \<and>
   status (fst (delete_wishlist req s)) \<noteq> 500"
proof (intro conjI allI impI)
  assume "\<not> ObjectId_isValid (params_id req)"
  then show "delete_wishlist req s = (reply 400 (Message ''Invalid id''), s)"
    by (simp add: delete_wishlist_def)
next
  fix req' :: request
  assume h: "verifyJWT verify req = Next req' \<and> \<not> ObjectId_isValid (params_id req)"
  then have "params_id req' = params_id req"
    by (auto simp: verifyJWT_def split: option.splits if_splits sum.splits)
  with h show "handle verify now DELETE_wishlist req s = (reply 400 (Message ''Invalid id''), s)"
    by (simp add: handle_def delete_wishlist_def)
next
  assume "ObjectId_isValid (params_id req)"
  then show "\<exists>oid. ObjectId_new (params_id req) = Inr oid" by (rule ObjectId_isValid_new)
next
  show "status (fst (delete_wishlist req s)) \<noteq> 500"
    by (cases "ObjectId_new (params_id req)")
       (auto simp: delete_wishlist_def Let_def reply_def ObjectId_isValid_def
             split: option.splits prod.splits)
qed

theorem delete_wishlist_invalid_id_witness:
  "delete_wishlist
     \<lparr>cookies = [], headers = [], body = [], params_id = ''12345'', query = [],
      user = Some [(''email'', JStr ''a@x.com'')]\<rparr>
     \<lparr>favoriteCollection = \<lparr>docs = [], next_oid = 0\<rparr>,
      usersCollection = \<lparr>docs = [], next_oid = 0\<rparr>\<rparr> =
   (reply 400 (Message ''Invalid id''),
     \<lparr>favoriteCollection = \<lparr>docs = [], next_oid = 0\<rparr>,
      usersCollection = \<lparr>docs = [], next_oid = 0\<rparr>\<rparr>)"
proof -
  let ?req = "\<lparr>cookies = [], headers = [], body = [], params_id = ''12345'', query = [],
      user = Some [(''email'', JStr ''a@x.com'')]\<rparr>"
  have h: "\<not> ObjectId_isValid (params_id ?req)" by code_simp
  show ?thesis
    by (rule mp [OF conjunct1 [OF delete_wishlist_invalid_id [where req = ?req]] h])
qed

lemma findOne_None_iff: "(findOne q c = None) = (\<forall>d\<in>set (docs c). \<not> matches q d)"
  by (auto simp: findOne_def find_None_iff)

lemma matches_key:
  "truthy (Some ownr) \<Longrightarrow> truthy (Some v) \<Longrightarrow>
   matches [(k, v), (''email'', ownr)] = has_key k ownr v"
  by (rule ext) (simp add: has_key_def)

lemma has_key_accepted:
  "truthy (Some ownr) \<Longrightarrow> truthy (Some v) \<Longrightarrow>
   has_key k ownr v d = (map_of d k = Some v \<and> map_of d ''email'' = Some ownr)"
  by (simp add: has_key_def)

lemma insertOne_generated:
  "map_of d ''_id'' = None \<Longrightarrow>
   insertOne d c = Inr (JOid (next_oid c),
     c\<lparr>docs := docs c @ [AList.update ''_id'' (JOid (next_oid c)) d],
       next_oid := Suc (next_oid c)\<rparr>)"
  by (simp add: insertOne_def Let_def)

lemma insertOne_appends:
  assumes "insertOne d c = Inr (i, c')"
  shows "\<exists>d'. docs c' = docs c @ [d'] \<and> map_of d' ''_id'' = Some i \<and>
              (\<forall>k. k \<noteq> ''_id'' \<longrightarrow> map_of d' k = map_of d k)"
proof (cases "map_of d ''_id'' = None \<or> map_of d ''_id'' = Some JNull")
  case True
  with assms have "c' = c\<lparr>docs := docs c @ [AList.update ''_id'' (JOid (next_oid c)) d],
       next_oid := Suc (next_oid c)\<rparr>" and "i = JOid (next_oid c)"
    by (auto simp: insertOne_def Let_def)
  then show ?thesis by (simp add: AList.update_conv')
next
  case False
  with assms have "docs c' = docs c @ [d]" and "map_of d ''_id'' = Some i"
    by (auto simp: insertOne_def split: option.splits if_splits)
  then show ?thesis by simp
qed


lemma post_wishlist_insert:
  assumes "user_email req = Some ownr" and "truthy (Some ownr)"
    and "map_of (body req) ''id'' = Some v" and "truthy (Some v)"
    and "map_of (body req) ''_id'' = None"
    and "\<forall>d\<in>set (docs (favoriteCollection s)). \<not> has_key ''id'' ownr v d"
  shows "post_wishlist now req s =
    (reply 201 (Inserted (JOid (next_oid (favoriteCollection s)))),
     s\<lparr>favoriteCollection := (favoriteCollection s)
        \<lparr>docs := docs (favoriteCollection s) @
           [AList.update ''_id'' (JOid (next_oid (favoriteCollection s)))
              (AList.update ''createdAt'' (JDate now)
                 (AList.update ''email'' ownr (body req)))],
         next_oid := Suc (next_oid (favoriteCollection s))\<rparr>\<rparr>)"
proof -
  have f: "findOne [(''id'', v), (''email'', ownr)] (favoriteCollection s) = None"
    using assms(2,4,6) by (simp only: findOne_None_iff matches_key) 
  have i: "map_of (AList.update ''createdAt'' (JDate now)
                 (AList.update ''email'' ownr (body req))) ''_id'' = None"
    using assms(5) by (simp add: AList.update_conv')
  show ?thesis
    using assms(1-4) f insertOne_generated [OF i]
    by (simp add: post_wishlist_def Let_def)
qed







lemma post_wishlist_recommend_insert:
  assumes "user_email req = Some ownr" and "truthy (Some ownr)"
    and "map_of (body req) ''hotelId'' = Some v" and "truthy (Some v)"
    and "truthy (map_of (body req) ''name'')"
    and "map_of (body req) ''_id'' = None"
    and "\<forall>d\<in>set (docs (favoriteCollection s)). \<not> has_key ''hotelId'' ownr v d"
  shows "post_wishlist_recommend now req s =
    (reply 201 (Inserted (JOid (next_oid (favoriteCollection s)))),
     s\<lparr>favoriteCollection := (favoriteCollection s)
        \<lparr>docs := docs (favoriteCollection s) @
           [AList.update ''_id'' (JOid (next_oid (favoriteCollection s)))
              (AList.update ''createdAt'' (JDate now)
                 (AList.update ''email'' ownr (body req)))],
         next_oid := Suc (next_oid (favoriteCollection s))\<rparr>\<rparr>)"
proof -
  have f: "findOne [(''hotelId'', v), (''email'', ownr)] (favoriteCollection s) = None"
    using assms(2,4,7) by (simp only: findOne_None_iff matches_key) 
  have i: "map_of (AList.update ''createdAt'' (JDate now)
                 (AList.update ''email'' ownr (body req))) ''_id'' = None"
    using assms(6) by (simp add: AList.update_conv')
  show ?thesis
    using assms(1-5) f insertOne_generated [OF i]
    by (simp add: post_wishlist_recommend_def Let_def)
qed





lemma insert_owner:
  assumes "insertOne (AList.update ''createdAt'' t (AList.update ''email'' ownr b)) c = Inr (i, c')"
  shows "\<exists>d. docs c' = docs c @ [d] \<and> map_of d ''email'' = Some ownr"
proof -
  from insertOne_appends [OF assms] obtain d' where
    d: "docs c' = docs c @ [d']" and
    k: "\<forall>k. k \<noteq> ''_id'' \<longrightarrow>
          map_of d' k = map_of (AList.update ''createdAt'' t (AList.update ''email'' ownr b)) k"
    by blast
  from k have "map_of d' ''email'' = Some ownr"
    by (simp add: AList.update_conv')
  with d show ?thesis by blast
qed

lemma post_wishlist_effect:
  "(status (fst (post_wishlist now req s)) = 201 \<longrightarrow>
      (\<exists>d. docs (favoriteCollection (snd (post_wishlist now req s))) =
             docs (favoriteCollection s) @ [d] \<and> map_of d ''email'' = user_email req)) \<and>
   (status (fst (post_wishlist now req s)) \<noteq> 201 \<longrightarrow> snd (post_wishlist now req s) = s)"
  by (auto simp: post_wishlist_def Let_def reply_def dest: insert_owner
           split: option.splits sum.splits)

lemma post_wishlist_recommend_effect:
  "(status (fst (post_wishlist_recommend now req s)) = 201 \<longrightarrow>
      (\<exists>d. docs (favoriteCollection (snd (post_wishlist_recommend now req s))) =
             docs (favoriteCollection s) @ [d] \<and> map_of d ''email'' = user_email req)) \<and>
   (status (fst (post_wishlist_recommend now req s)) \<noteq> 201 \<longrightarrow>
      snd (post_wishlist_recommend now req s) = s)"
  by (auto simp: post_wishlist_recommend_def Let_def reply_def dest: insert_owner
           split: option.splits sum.splits)

lemma post_wishlist_body_email:
  "post_wishlist now (req\<lparr>body := AList.update ''email'' e (body req)\<rparr>) s =
   post_wishlist now req s"
  by (simp add: post_wishlist_def Let_def user_email_def AList.update_conv' split: option.splits)

lemma post_wishlist_recommend_body_email:
  "post_wishlist_recommend now (req\<lparr>body := AList.update ''email'' e (body req)\<rparr>) s =
   post_wishlist_recommend now req s"
  by (simp add: post_wishlist_recommend_def Let_def user_email_def AList.update_conv' split: option.splits)

text \<open>
  Claim C9. Whenever \<^verbatim>\<open>POST /wishlist\<close> or \<^verbatim>\<open>POST /wishlist-recommend\<close> stores an
  item (answer 201), the collection grows by that one item and its \<^verbatim>\<open>email\<close> is the
  e-mail of the verified token; with any other answer the store is unchanged. An
  e-mail put in the body changes nothing: the handler's result is the same with it
  as without it.
\<close>

theorem stored_owner_is_token_email:
  assumes "h = post_wishlist now \<or> h = post_wishlist_recommend now"
  shows "(status (fst (h req s)) = 201 \<longrightarrow>
            (\<exists>d. docs (favoriteCollection (snd (h req s))) = docs (favoriteCollection s) @ [d] \<and>
                 map_of d ''email'' = user_email req)) \<and>
         (status (fst (h req s)) \<noteq> 201 \<longrightarrow> snd (h req s) = s) \<and>
         h (req\<lparr>body := AList.update ''email'' e (body req)\<rparr>) s = h req s"
  using assms post_wishlist_effect [of now req s] post_wishlist_recommend_effect [of now req s]
    post_wishlist_body_email [where now = now and req = req and e = e and s = s]
    post_wishlist_recommend_body_email [where now = now and req = req and e = e and s = s]
  by blast

theorem stored_owner_is_token_email_witness:
  "\<exists>d. docs (favoriteCollection (snd (post_wishlist 1
           \<lparr>cookies = [], headers = [],
            body = [(''id'', JNum 7), (''email'', JStr ''b@x.com'')],
            params_id = [], query = [], user = Some [(''email'', JStr ''a@x.com'')]\<rparr>
           \<lparr>favoriteCollection = \<lparr>docs = [], next_oid = 0\<rparr>,
            usersCollection = \<lparr>docs = [], next_oid = 0\<rparr>\<rparr>))) =
        docs (favoriteCollection
           \<lparr>favoriteCollection = \<lparr>docs = [], next_oid = 0\<rparr>,
            usersCollection = \<lparr>docs = [], next_oid = 0\<rparr>\<rparr>) @ [d] \<and>
        map_of d ''email'' =
          user_email \<lparr>cookies = [], headers = [],
            body = [(''id'', JNum 7), (''email'', JStr ''b@x.com'')],
            params_id = [], query = [], user = Some [(''email'', JStr ''a@x.com'')]\<rparr>"
proof -
  let ?req = "\<lparr>cookies = [], headers = [],
            body = [(''id'', JNum 7), (''email'', JStr ''b@x.com'')],
            params_id = [], query = [], user = Some [(''email'', JStr ''a@x.com'')]\<rparr>"
  let ?s = "\<lparr>favoriteCollection = \<lparr>docs = [], next_oid = 0\<rparr>,
            usersCollection = \<lparr>docs = [], next_oid = 0\<rparr>\<rparr>"
  have h: "post_wishlist 1 = post_wishlist 1 \<or> post_wishlist 1 = post_wishlist_recommend 1"
    by (rule disjI1) (rule refl)
  have st: "status (fst (post_wishlist 1 ?req ?s)) = 201" by code_simp
  show ?thesis
    by (rule mp [OF conjunct1 [OF stored_owner_is_token_email
                   [OF h, where req = ?req and s = ?s and e = JNull]] st])
qed

lemma deleteOne_cases:
  assumes "deleteOne q c = (n, c')"
  shows "next_oid c' = next_oid c \<and>
         ((n = 0 \<and> c' = c) \<or>
          (n = 1 \<and> (\<exists>xs d ys. docs c = xs @ d # ys \<and> docs c' = xs @ ys \<and> matches q d \<and>
                      (\<forall>x\<in>set xs. \<not> matches q x))))"
proof -
  from assms have c': "c' = c\<lparr>docs := delete_first (matches q) (docs c)\<rparr>"
    and n: "n = length (docs c) - length (delete_first (matches q) (docs c))"
    by (simp_all add: deleteOne_def Let_def)
  from delete_first_cases [of "matches q" "docs c"] show ?thesis
  proof
    assume "delete_first (matches q) (docs c) = docs c \<and> (\<forall>x\<in>set (docs c). \<not> matches q x)"
    with c' n show ?thesis by simp
  next
    assume "\<exists>ys d zs. docs c = ys @ d # zs \<and> matches q d \<and> (\<forall>y\<in>set ys. \<not> matches q y) \<and>
              delete_first (matches q) (docs c) = ys @ zs"
    then obtain ys d zs where h: "docs c = ys @ d # zs" "matches q d"
       "\<forall>y\<in>set ys. \<not> matches q y" "delete_first (matches q) (docs c) = ys @ zs"
      by blast
    with n have "n = 1" by simp
    moreover from c' h have "docs c' = ys @ zs" by simp
    ultimately show ?thesis using h c' by auto
  qed
qed

text \<open>
  Claim C10. \<^verbatim>\<open>DELETE /wishlist/:id\<close> leaves the users alone and removes at most one
  favourite: either the store is unchanged, or exactly one item has been taken out,
  the first one whose \<^verbatim>\<open>_id\<close> is the given identifier and whose \<^verbatim>\<open>email\<close> is the
  caller's, every other item staying where it was.
\<close>

theorem delete_wishlist_at_most_one:
  assumes "delete_wishlist req s = (r, s')"
  shows "usersCollection s' = usersCollection s \<and>
         next_oid (favoriteCollection s') = next_oid (favoriteCollection s) \<and>
         length (docs (favoriteCollection s)) \<le> Suc (length (docs (favoriteCollection s'))) \<and>
         (s' = s \<or>
          (\<exists>xs d ys oid. ObjectId_new (params_id req) = Inr oid \<and>
             docs (favoriteCollection s) = xs @ d # ys \<and>
             docs (favoriteCollection s') = xs @ ys \<and>
             map_of d ''_id'' = Some (JOid oid) \<and> map_of d ''email'' = user_email req \<and>
             (\<forall>x\<in>set xs. \<not> (map_of x ''_id'' = Some (JOid oid) \<and>
                             map_of x ''email'' = user_email req))))"
proof (cases "ObjectId_isValid (params_id req) \<and> truthy (user_email req)")
  case False
  with assms have "s' = s"
    by (auto simp: delete_wishlist_def Let_def split: option.splits if_splits)
  then show ?thesis by simp
next
  case True
  then obtain oid where oid: "ObjectId_new (params_id req) = Inr oid"
    using ObjectId_isValid_new by blast
  from True obtain ownr where ownr: "user_email req = Some ownr" "truthy (Some ownr)"
    by (cases "user_email req") auto
  let ?q = "[(''_id'', JOid oid), (''email'', ownr)]"
  obtain n fav where d: "deleteOne ?q (favoriteCollection s) = (n, fav)"
    by (cases "deleteOne ?q (favoriteCollection s)")
  with assms True oid ownr have s': "s' = s\<lparr>favoriteCollection := fav\<rparr>"
    by (auto simp: delete_wishlist_def Let_def split: if_splits)
  have m: "\<And>x. matches ?q x = (map_of x ''_id'' = Some (JOid oid) \<and> map_of x ''email'' = Some ownr)"
    using ownr(2) by simp
  from deleteOne_cases [OF d] have no: "next_oid fav = next_oid (favoriteCollection s)" and
    cs: "(n = 0 \<and> fav = favoriteCollection s) \<or>
          (n = 1 \<and> (\<exists>xs d ys. docs (favoriteCollection s) = xs @ d # ys \<and> docs fav = xs @ ys \<and>
              matches ?q d \<and> (\<forall>x\<in>set xs. \<not> matches ?q x)))"
    by simp_all
  from cs show ?thesis
  proof
    assume "n = 0 \<and> fav = favoriteCollection s"
    with s' show ?thesis by simp
  next
    assume "n = 1 \<and> (\<exists>xs d ys. docs (favoriteCollection s) = xs @ d # ys \<and> docs fav = xs @ ys \<and>
              matches ?q d \<and> (\<forall>x\<in>set xs. \<not> matches ?q x))"
    then obtain xs d ys where h: "docs (favoriteCollection s) = xs @ d # ys" "docs fav = xs @ ys"
       "matches ?q d" "\<forall>x\<in>set xs. \<not> matches ?q x"
      by blast
    have "ObjectId_new (params_id req) = Inr oid \<and>
             docs (favoriteCollection s) = xs @ d # ys \<and>
             docs (favoriteCollection s') = xs @ ys \<and>
             map_of d ''_id'' = Some (JOid oid) \<and> map_of d ''email'' = user_email req \<and>
             (\<forall>x\<in>set xs. \<not> (map_of x ''_id'' = Some (JOid oid) \<and>
                             map_of x ''email'' = user_email req))"
      using h oid ownr(1) s' by (simp only: m) simp
    then have "\<exists>xs d ys oid. ObjectId_new (params_id req) = Inr oid \<and>
             docs (favoriteCollection s) = xs @ d # ys \<and>
             docs (favoriteCollection s') = xs @ ys \<and>
             map_of d ''_id'' = Some (JOid oid) \<and> map_of d ''email'' = user_email req \<and>
             (\<forall>x\<in>set xs. \<not> (map_of x ''_id'' = Some (JOid oid) \<and>
                             map_of x ''email'' = user_email req))"
      by blast
    moreover have "length (docs (favoriteCollection s)) \<le> Suc (length (docs (favoriteCollection s')))"
      using h s' by simp
    ultimately show ?thesis using s' no by simp
  qed
qed

theorem delete_wishlist_at_most_one_witness:
  "usersCollection
     \<lparr>favoriteCollection =
        \<lparr>docs = [[(''_id'', JOid 9), (''id'', JNum 1), (''email'', JStr ''a@x.com'')],
                 [(''_id'', JOid 11), (''id'', JNum 3), (''email'', JStr ''a@x.com'')]],
         next_oid = 12\<rparr>,
      usersCollection = \<lparr>docs = [], next_oid = 0\<rparr>\<rparr> =
   usersCollection
     \<lparr>favoriteCollection =
        \<lparr>docs = [[(''_id'', JOid 9), (''id'', JNum 1), (''email'', JStr ''a@x.com'')],
                 [(''_id'', JOid 10), (''id'', JNum 2), (''email'', JStr ''a@x.com'')],
                 [(''_id'', JOid 11), (''id'', JNum 3), (''email'', JStr ''a@x.com'')]],
         next_oid = 12\<rparr>,
      usersCollection = \<lparr>docs = [], next_oid = 0\<rparr>\<rparr> \<and>
   length (docs (favoriteCollection
     \<lparr>favoriteCollection =
        \<lparr>docs = [[(''_id'', JOid 9), (''id'', JNum 1), (''email'', JStr ''a@x.com'')],
                 [(''_id'', JOid 10), (''id'', JNum 2), (''email'', JStr ''a@x.com'')],
                 [(''_id'', JOid 11), (''id'', JNum 3), (''email'', JStr ''a@x.com'')]],
         next_oid = 12\<rparr>,
      usersCollection = \<lparr>docs = [], next_oid = 0\<rparr>\<rparr>)) \<le>
   Suc (length (docs (favoriteCollection
     \<lparr>favoriteCollection =
        \<lparr>docs = [[(''_id'', JOid 9), (''id'', JNum 1), (''email'', JStr ''a@x.com'')],
                 [(''_id'', JOid 11), (''id'', JNum 3), (''email'', JStr ''a@x.com'')]],
         next_oid = 12\<rparr>,
      usersCollection = \<lparr>docs = [], next_oid = 0\<rparr>\<rparr>)))"
proof -
  let ?req = "\<lparr>cookies = [], headers = [], body = [], params_id = ''00000000000000000000000a'',
      query = [], user = Some [(''email'', JStr ''a@x.com'')]\<rparr>"
  let ?s = "\<lparr>favoriteCollection =
        \<lparr>docs = [[(''_id'', JOid 9), (''id'', JNum 1), (''email'', JStr ''a@x.com'')],
                 [(''_id'', JOid 10), (''id'', JNum 2), (''email'', JStr ''a@x.com'')],
                 [(''_id'', JOid 11), (''id'', JNum 3), (''email'', JStr ''a@x.com'')]],
         next_oid = 12\<rparr>,
      usersCollection = \<lparr>docs = [], next_oid = 0\<rparr>\<rparr>"
  let ?s' = "\<lparr>favoriteCollection =
        \<lparr>docs = [[(''_id'', JOid 9), (''id'', JNum 1), (''email'', JStr ''a@x.com'')],
                 [(''_id'', JOid 11), (''id'', JNum 3), (''email'', JStr ''a@x.com'')]],
         next_oid = 12\<rparr>,
      usersCollection = \<lparr>docs = [], next_oid = 0\<rparr>\<rparr>"
  have h: "delete_wishlist ?req ?s = (reply 200 (Deleted 1), ?s')" by code_simp
  note t = delete_wishlist_at_most_one [OF h]
  show ?thesis
    by (rule conjI [OF conjunct1 [OF t] conjunct1 [OF conjunct2 [OF conjunct2 [OF t]]]])
qed

lemma field_matches_JStr [simp]: "field_matches (JStr x) fd = (fd = Some (JStr x))"
  by (cases fd) (auto simp: field_matches_def)









section \<open>The earlier revision differs\<close>

text \<open>
  The properties above are those of the revision the specification describes. The
  earlier revision kept in \<^verbatim>\<open>src/index.js\<close> does not have them: its guard ignores
  the authorization header, its list returns every owner's items, its delete removes
  another owner's item and throws on a malformed id, its add stores the owner the
  body names, and a second \<^verbatim>\<open>POST /users\<close> changes nothing.
\<close>

lemma rev_verifyJWT_ignores_header:
  "rev_verifyJWT verify
     \<lparr>cookies = [], headers = [(''authorization'', ''Bearer abc'')], body = [],
      params_id = [], query = [], user = None\<rparr> =
   Reject (reply 401 (Message ''Unauthorized: No token provided''))"
  by (simp add: rev_verifyJWT_def)

lemma rev_get_wishlist_all:
  "rev_get_wishlist req s = (reply 200 (Items (docs (favoriteCollection s))), s)"
  by (simp add: rev_get_wishlist_def find_toArray_def)

lemma rev_delete_wishlist_other_owner:
  "rev_delete_wishlist
     \<lparr>cookies = [], headers = [], body = [], params_id = ''00000000000000000000000a'',
      query = [], user = Some [(''email'', JStr ''a@x.com'')]\<rparr>
     \<lparr>favoriteCollection =
        \<lparr>docs = [[(''_id'', JOid 10), (''id'', JNum 7), (''email'', JStr ''b@x.com'')]],
         next_oid = 11\<rparr>,
      usersCollection = \<lparr>docs = [], next_oid = 0\<rparr>\<rparr> =
   Inr (reply 200 (Deleted 1),
        \<lparr>favoriteCollection = \<lparr>docs = [], next_oid = 11\<rparr>,
         usersCollection = \<lparr>docs = [], next_oid = 0\<rparr>\<rparr>)"
  by code_simp

lemma rev_delete_wishlist_throws:
  assumes "\<not> ObjectId_isValid (params_id req)"
  shows "rev_delete_wishlist req s = Inl BSONError"
proof (cases "ObjectId_new (params_id req)")
  case (Inl err)
  then show ?thesis by (cases err) (simp add: rev_delete_wishlist_def)
next
  case (Inr oid)
  with assms show ?thesis by (simp add: ObjectId_isValid_def)
qed

lemma rev_post_wishlist_owner_from_body:
  "rev_post_wishlist
     \<lparr>cookies = [], headers = [], body = [(''id'', JNum 7), (''email'', JStr ''b@x.com'')],
      params_id = [], query = [], user = Some [(''email'', JStr ''a@x.com'')]\<rparr>
     \<lparr>favoriteCollection = \<lparr>docs = [], next_oid = 0\<rparr>,
      usersCollection = \<lparr>docs = [], next_oid = 0\<rparr>\<rparr> =
   (reply 200 (Inserted (JOid 0)),
    \<lparr>favoriteCollection =
       \<lparr>docs = [[(''id'', JNum 7), (''email'', JStr ''b@x.com''), (''_id'', JOid 0)]],
        next_oid = 1\<rparr>,
     usersCollection = \<lparr>docs = [], next_oid = 0\<rparr>\<rparr>)"
  by code_simp

lemma rev_post_users_no_update:
  "rev_post_users
     \<lparr>cookies = [], headers = [], body = [(''email'', JStr ''a@x.com''), (''name'', JStr ''B'')],
      params_id = [], query = [], user = None\<rparr>
     \<lparr>favoriteCollection = \<lparr>docs = [], next_oid = 0\<rparr>,
      usersCollection =
        \<lparr>docs = [[(''email'', JStr ''a@x.com''), (''name'', JStr ''A''), (''_id'', JOid 0)]],
         next_oid = 1\<rparr>\<rparr> =
   Inr (reply 200 (Message ''User already exists''),
        \<lparr>favoriteCollection = \<lparr>docs = [], next_oid = 0\<rparr>,
         usersCollection =
           \<lparr>docs = [[(''email'', JStr ''a@x.com''), (''name'', JStr ''A''), (''_id'', JOid 0)]],
            next_oid = 1\<rparr>\<rparr>)"
  by code_simp

end
